theory Spec2Isabelle
  imports Main "HOL-Library.Multiset"
begin

section \<open>Warbler: the relational state\<close>

text \<open>
  Modelled from the spec: the four tables on which the route handlers of \<^verbatim>\<open>app.py\<close>
  work through the ORM. The module \<^verbatim>\<open>models.py\<close> that declares them is not among the
  sources; the rows follow the persisted state layout
  \<^verbatim>\<open>users(id, username UNIQUE, email UNIQUE, password_hash, image_url, header_image_url, bio, location)\<close>,
  \<^verbatim>\<open>messages(id, text, timestamp, user_id REFERENCES users)\<close>,
  \<^verbatim>\<open>follows(follower_id, followed_id, UNIQUE(follower_id, followed_id))\<close>,
  \<^verbatim>\<open>likes(user_id, message_id, UNIQUE(user_id, message_id))\<close>.

  Identifiers are the non-negative integers that the \<^verbatim>\<open><int:...>\<close> URL converter
  accepts; a timestamp is an integer count of clock ticks. A table is the list of its
  rows. The order of that list stands for the order in which the store yields rows
  wherever a query leaves the order open (rows it does not order, rows that tie under
  its \<^verbatim>\<open>ORDER BY\<close>). It is the store's choice and need not be the order of insertion;
  nothing in \<^verbatim>\<open>app.py\<close> controls it.
\<close>

record user =
  u_id :: nat
  username :: string
  email :: string
  password :: string
  image_url :: string
  header_image_url :: string
  bio :: string
  location :: string

record message =
  m_id :: nat
  m_text :: string
  timestamp :: int
  user_id :: nat

record follows_row =
  follower_id :: nat
  followed_id :: nat

record likes_row =
  l_user_id :: nat
  l_message_id :: nat

record db =
  users :: "user list"
  messages :: "message list"
  follows :: "follows_row list"
  likes :: "likes_row list"

text \<open>
  The password hashing library (Flask-Bcrypt) and the default of the \<^verbatim>\<open>image_url\<close>
  column (\<^verbatim>\<open>User.image_url.default.arg\<close>) are external to \<^verbatim>\<open>app.py\<close>: they are
  parameters of the model.
\<close>

record env =
  generate_password_hash :: "string \<Rightarrow> string"
  check_password_hash :: "string \<Rightarrow> string \<Rightarrow> bool"
  default_image_url :: string

subsection \<open>Requests, sessions and responses\<close>

text \<open>
  The Flask session is a dictionary; the handlers only use the key \<^verbatim>\<open>CURR_USER_KEY\<close>.
\<close>

type_synonym session = "string \<rightharpoonup> nat"

definition CURR_USER_KEY :: string where
  "CURR_USER_KEY = ''curr_user''"

text \<open>
  The form classes live in \<^verbatim>\<open>forms.py\<close>, which is not among the sources. A handler
  receives the form as Flask-WTF has bound it: the field data and the value that
  \<^verbatim>\<open>form.validate_on_submit()\<close> returns for this request.
\<close>

record user_add_form =
  af_username :: string
  af_password :: string
  af_email :: string
  af_image_url :: string

record login_form =
  lf_username :: string
  lf_password :: string

record message_form =
  mf_text :: string

record user_edit_form =
  ef_username :: string
  ef_email :: string
  ef_image_url :: string
  ef_header_image_url :: string
  ef_bio :: string
  ef_location :: string
  ef_password :: string

record 'd form =
  form_data :: 'd
  validate_on_submit :: bool

text \<open>
  Redirect targets. The source builds them as strings, some with the user's identifier
  formatted in: \<^verbatim>\<open>"/"\<close>, \<^verbatim>\<open>"/login"\<close>, \<^verbatim>\<open>"/signup"\<close>, \<^verbatim>\<open>f"/users/{id}"\<close>,
  \<^verbatim>\<open>f"/users/{id}/following"\<close>, \<^verbatim>\<open>f"/users/{id}/likes"\<close>.
\<close>

datatype url =
  Root
  | LoginPage
  | SignupPage
  | UserPage nat
  | UserFollowingPage nat
  | UserLikesPage nat

text \<open>The keyword arguments that \<^verbatim>\<open>render_template\<close> passes to a template.\<close>

datatype val =
  VMessages "message list"
  | VIds "nat list"
  | VUser user
  | VUserId nat
  | VUserAddForm user_add_form
  | VLoginForm login_form
  | VMessageForm message_form
  | VUserEditForm user_edit_form

text \<open>
  An exception that no handler catches ends the request with a server error; the
  transaction is not committed.
\<close>

datatype exn = IntegrityError | ValueError | UnmappedInstanceError

datatype response =
  Redirect url
  | Render string "(string \<times> val) list"
  | Abort nat
  | Raised exn

text \<open>
  What a request leaves behind: the committed database, the session, the messages
  flashed (text and category) and the response.
\<close>

record outcome =
  db_after :: db
  session_after :: session
  flashes :: "(string \<times> string) list"
  response :: response

section \<open>Queries\<close>

text \<open>\<^verbatim>\<open>User.query.get(id)\<close> and \<^verbatim>\<open>Message.query.get(id)\<close>: the row or \<^verbatim>\<open>None\<close>.\<close>

definition get_user :: "db \<Rightarrow> nat \<Rightarrow> user option" where
  "get_user d k = find (\<lambda>u. u_id u = k) (users d)"

definition get_message :: "db \<Rightarrow> nat \<Rightarrow> message option" where
  "get_message d k = find (\<lambda>m. m_id m = k) (messages d)"

text \<open>
  \<^verbatim>\<open>user.following\<close>: the users joined to \<^verbatim>\<open>user\<close> through the follows table, with
  \<^verbatim>\<open>user\<close> as the follower.
\<close>

definition following :: "db \<Rightarrow> user \<Rightarrow> user list" where
  "following d u =
     filter (\<lambda>v. \<lparr>follower_id = u_id u, followed_id = u_id v\<rparr> \<in> set (follows d)) (users d)"

text \<open>
  \<^verbatim>\<open>.order_by(Message.timestamp.desc())\<close>: the rows by timestamp, latest first. The
  query names no second key, so the store is free in the order of rows with equal
  timestamps. The model takes that choice from the order of the list handed in, which
  stands for it: every latest-first arrangement of the rows is the result for some
  list order, namely its own (\<open>order_by_timestamp_desc_fixes_sorted\<close> below). No
  statement about which tie order the store picks is made from this definition.
\<close>

definition order_by_timestamp_desc :: "message list \<Rightarrow> message list" where
  "order_by_timestamp_desc ms = sort_key (\<lambda>m. - timestamp m) ms"

text \<open>\<^verbatim>\<open>.limit(n)\<close>\<close>

definition limit :: "nat \<Rightarrow> 'a list \<Rightarrow> 'a list" where
  "limit n rows = take n rows"

text \<open>\<^verbatim>\<open>Likes.query.filter_by(user_id=..., message_id=...).first()\<close>\<close>

definition first_like :: "db \<Rightarrow> nat \<Rightarrow> nat \<Rightarrow> likes_row option" where
  "first_like d uid mid =
     find (\<lambda>l. l_user_id l = uid \<and> l_message_id l = mid) (likes d)"

text \<open>
  The identifier that the store assigns to a new row: one that no row of the table has.
  The store draws it from a sequence, which also skips the identifiers of deleted rows;
  the model keeps no sequence, and no handler looks at which fresh identifier it got.
\<close>

definition next_id :: "nat list \<Rightarrow> nat" where
  "next_id ids = Suc (fold max ids 0)"

section \<open>Session handling\<close>

text \<open>
  \<^verbatim>\<open>add_user_to_g\<close> runs before every request: \<^verbatim>\<open>g.user\<close> is the row of the session's
  user, or \<^verbatim>\<open>None\<close> when the session has no user or the row is gone.
\<close>

definition add_user_to_g :: "db \<Rightarrow> session \<Rightarrow> user option" where
  "add_user_to_g d s =
     (case s CURR_USER_KEY of
        Some k \<Rightarrow> get_user d k
      | None \<Rightarrow> None)"

definition do_login :: "session \<Rightarrow> user \<Rightarrow> session" where
  "do_login s u = s(CURR_USER_KEY \<mapsto> u_id u)"

definition do_logout :: "session \<Rightarrow> session" where
  "do_logout s = (if CURR_USER_KEY \<in> dom s then s(CURR_USER_KEY := None) else s)"

section \<open>Store behaviour behind the ORM\<close>

text \<open>
  Modelled from the spec: the uniqueness constraints of the users table. A commit that
  would leave two rows with the same username or the same email raises
  \<^verbatim>\<open>IntegrityError\<close> and writes nothing. \<^verbatim>\<open>unique_violation rows u\<close> holds when the
  row \<open>u\<close> collides with one of \<open>rows\<close>.
\<close>

definition unique_violation :: "user list \<Rightarrow> user \<Rightarrow> bool" where
  "unique_violation rows u =
     (\<exists>v \<in> set rows. username v = username u \<or> email v = email u)"

text \<open>
  Modelled from the spec: deleting a message removes the likes on it; deleting a user
  removes the messages the user wrote, the likes the user made, the likes on those
  messages and the follow edges in both directions (the cascade lives in
  \<^verbatim>\<open>models.py\<close> and the store).
\<close>

definition cascade_delete_message :: "db \<Rightarrow> nat \<Rightarrow> db" where
  "cascade_delete_message d mid =
     d\<lparr>messages := filter (\<lambda>m. m_id m \<noteq> mid) (messages d),
       likes := filter (\<lambda>l. l_message_id l \<noteq> mid) (likes d)\<rparr>"

definition cascade_delete_user :: "db \<Rightarrow> nat \<Rightarrow> db" where
  "cascade_delete_user d uid =
     d\<lparr>users := filter (\<lambda>u. u_id u \<noteq> uid) (users d),
       messages := filter (\<lambda>m. user_id m \<noteq> uid) (messages d),
       follows := filter (\<lambda>f. follower_id f \<noteq> uid \<and> followed_id f \<noteq> uid) (follows d),
       likes := filter (\<lambda>l. l_user_id l \<noteq> uid \<and>
                   l_message_id l \<notin> m_id ` set (filter (\<lambda>m. user_id m = uid) (messages d)))
                 (likes d)\<rparr>"

section \<open>The User model's class methods\<close>

text \<open>The header image that a profile falls back to (\<^verbatim>\<open>app.py\<close>, \<^verbatim>\<open>profile\<close>).\<close>

definition default_header_image_url :: string where
  "default_header_image_url = ''/static/images/warbler-hero.jpg''"

text \<open>
  Modelled from the spec: \<^verbatim>\<open>User.signup(username, email, password, image_url)\<close> of
  \<^verbatim>\<open>models.py\<close>. It validates that the required fields are non-empty (the repository's
  test expects \<^verbatim>\<open>ValueError\<close> otherwise), hashes the password and adds a new user row to
  the session; the row reaches the table at the commit.
\<close>

definition User_signup :: "env \<Rightarrow> db \<Rightarrow> string \<Rightarrow> string \<Rightarrow> string \<Rightarrow> string \<Rightarrow> exn + user" where
  "User_signup e d uname mail pw img =
     (if uname = [] \<or> mail = [] \<or> pw = [] then Inl ValueError
      else Inr \<lparr>u_id = next_id (map u_id (users d)),
                username = uname,
                email = mail,
                password = generate_password_hash e pw,
                image_url = img,
                header_image_url = default_header_image_url,
                bio = [],
                location = []\<rparr>)"

text \<open>
  Modelled from the spec: \<^verbatim>\<open>User.authenticate(username, password)\<close> of \<^verbatim>\<open>models.py\<close>. It
  looks the user up by username; if found, it verifies the password against the stored
  hash; it returns the user only on a match.
\<close>

definition User_authenticate :: "env \<Rightarrow> db \<Rightarrow> string \<Rightarrow> string \<Rightarrow> user option" where
  "User_authenticate e d uname pw =
     (case find (\<lambda>u. username u = uname) (users d) of
        None \<Rightarrow> None
      | Some u \<Rightarrow> if check_password_hash e (password u) pw then Some u else None)"

text \<open>
  Modelled from the spec: \<^verbatim>\<open>user.check_password(password)\<close> of \<^verbatim>\<open>models.py\<close>, the
  confirmation of the current password in the profile form.
\<close>

definition check_password :: "env \<Rightarrow> user \<Rightarrow> string \<Rightarrow> bool" where
  "check_password e u pw = check_password_hash e (password u) pw"

section \<open>Route handlers\<close>

text \<open>
  Each handler takes the committed database and the session of the request and returns
  the outcome. \<^verbatim>\<open>g.user\<close> is \<^verbatim>\<open>add_user_to_g\<close> of the two.
\<close>

definition signup :: "env \<Rightarrow> db \<Rightarrow> session \<Rightarrow> user_add_form form \<Rightarrow> outcome" where
  "signup e d s form =
     (let f = form_data form in
      if validate_on_submit form then
        (case User_signup e d (af_username f) (af_email f) (af_password f)
                (if af_image_url f = [] then default_image_url e else af_image_url f) of
           Inl x \<Rightarrow>
             \<lparr>db_after = d, session_after = s, flashes = [], response = Raised x\<rparr>
         | Inr u \<Rightarrow>
             if unique_violation (users d) u then
               \<lparr>db_after = d, session_after = s,
                flashes = [(''Username already taken'', ''danger'')],
                response = Render ''users/signup.html'' [(''form'', VUserAddForm f)]\<rparr>
             else
               \<lparr>db_after = d\<lparr>users := users d @ [u]\<rparr>, session_after = do_login s u,
                flashes = [(''Welcome to Warbler'', ''success'')],
                response = Redirect Root\<rparr>)
      else
        \<lparr>db_after = d, session_after = s, flashes = [],
         response = Render ''users/signup.html'' [(''form'', VUserAddForm f)]\<rparr>)"

definition login :: "env \<Rightarrow> db \<Rightarrow> session \<Rightarrow> login_form form \<Rightarrow> outcome" where
  "login e d s form =
     (let f = form_data form in
      if validate_on_submit form then
        (case User_authenticate e d (lf_username f) (lf_password f) of
           Some u \<Rightarrow>
             \<lparr>db_after = d, session_after = do_login s u,
              flashes = [(''Hello, '' @ username u @ ''!'', ''success'')],
              response = Redirect Root\<rparr>
         | None \<Rightarrow>
             \<lparr>db_after = d, session_after = s,
              flashes = [(''Invalid credentials.'', ''danger'')],
              response = Render ''users/login.html'' [(''form'', VLoginForm f)]\<rparr>)
      else
        \<lparr>db_after = d, session_after = s, flashes = [],
         response = Render ''users/login.html'' [(''form'', VLoginForm f)]\<rparr>)"

definition logout :: "db \<Rightarrow> session \<Rightarrow> outcome" where
  "logout d s =
     \<lparr>db_after = d, session_after = do_logout s,
      flashes = [(''You have been successfully logged out.'', ''success'')],
      response = Redirect LoginPage\<rparr>"

definition users_show :: "db \<Rightarrow> session \<Rightarrow> nat \<Rightarrow> outcome" where
  "users_show d s uid =
     (case get_user d uid of
        None \<Rightarrow> \<lparr>db_after = d, session_after = s, flashes = [], response = Abort 404\<rparr>
      | Some u \<Rightarrow>
          (let msgs = limit 100 (order_by_timestamp_desc
                        (filter (\<lambda>m. user_id m = uid) (messages d)))
           in \<lparr>db_after = d, session_after = s, flashes = [],
               response = Render ''users/show.html''
                            [(''user'', VUser u), (''messages'', VMessages msgs)]\<rparr>))"

text \<open>
  \<^verbatim>\<open>add_follow\<close>: \<^verbatim>\<open>g.user.following.append(followed_user)\<close> and a commit. Appending a
  user who is in the collection already gives the ORM no new association to insert:
  the follows table stays as it is and the handler redirects as usual.
\<close>

definition add_follow :: "db \<Rightarrow> session \<Rightarrow> nat \<Rightarrow> outcome" where
  "add_follow d s follow_id =
     (case add_user_to_g d s of
        None \<Rightarrow>
          \<lparr>db_after = d, session_after = s,
           flashes = [(''Access unauthorized.'', ''danger'')],
           response = Redirect Root\<rparr>
      | Some g_user \<Rightarrow>
          (case get_user d follow_id of
             None \<Rightarrow> \<lparr>db_after = d, session_after = s, flashes = [], response = Abort 404\<rparr>
           | Some followed_user \<Rightarrow>
               (let row = \<lparr>follower_id = u_id g_user, followed_id = u_id followed_user\<rparr> in
                if row \<in> set (follows d) then
                  \<lparr>db_after = d, session_after = s, flashes = [],
                   response = Redirect (UserFollowingPage (u_id g_user))\<rparr>
                else
                  \<lparr>db_after = d\<lparr>follows := follows d @ [row]\<rparr>, session_after = s,
                   flashes = [], response = Redirect (UserFollowingPage (u_id g_user))\<rparr>)))"

text \<open>
  \<^verbatim>\<open>stop_following\<close> looks the target up with \<^verbatim>\<open>get\<close>, not \<^verbatim>\<open>get_or_404\<close>, and calls
  \<^verbatim>\<open>g.user.following.remove(followed_user)\<close>: Python's \<^verbatim>\<open>list.remove\<close> raises
  \<^verbatim>\<open>ValueError\<close> when the element (a user, or \<^verbatim>\<open>None\<close>) is not in the list.
\<close>

definition stop_following :: "db \<Rightarrow> session \<Rightarrow> nat \<Rightarrow> outcome" where
  "stop_following d s follow_id =
     (case add_user_to_g d s of
        None \<Rightarrow>
          \<lparr>db_after = d, session_after = s,
           flashes = [(''Access unauthorized.'', ''danger'')],
           response = Redirect Root\<rparr>
      | Some g_user \<Rightarrow>
          (case get_user d follow_id of
             None \<Rightarrow>
               \<lparr>db_after = d, session_after = s, flashes = [], response = Raised ValueError\<rparr>
           | Some followed_user \<Rightarrow>
               if followed_user \<in> set (following d g_user) then
                 \<lparr>db_after = d\<lparr>follows :=
                     removeAll \<lparr>follower_id = u_id g_user, followed_id = u_id followed_user\<rparr>
                       (follows d)\<rparr>,
                  session_after = s, flashes = [],
                  response = Redirect (UserFollowingPage (u_id g_user))\<rparr>
               else
                 \<lparr>db_after = d, session_after = s, flashes = [],
                  response = Raised ValueError\<rparr>))"

text \<open>
  \<^verbatim>\<open>profile\<close>: the form is \<^verbatim>\<open>UserEditForm(obj=g.user)\<close> as bound for this request. The
  commit of the edited row raises \<^verbatim>\<open>IntegrityError\<close>, which the handler does not catch,
  when another user has the new username or email.
\<close>

definition profile :: "env \<Rightarrow> db \<Rightarrow> session \<Rightarrow> user_edit_form form \<Rightarrow> outcome" where
  "profile e d s form =
     (case add_user_to_g d s of
        None \<Rightarrow>
          \<lparr>db_after = d, session_after = s,
           flashes = [(''Access unauthorized.'', ''danger'')],
           response = Redirect LoginPage\<rparr>
      | Some g_user \<Rightarrow>
          if validate_on_submit form then
            (let f = (if ef_header_image_url (form_data form) = []
                      then (form_data form)\<lparr>ef_header_image_url := default_header_image_url\<rparr>
                      else form_data form)
             in
             if check_password e g_user (ef_password f) then
               (let u = g_user\<lparr>username := ef_username f,
                                email := ef_email f,
                                image_url := ef_image_url f,
                                location := ef_location f,
                                header_image_url := ef_header_image_url f,
                                bio := ef_bio f\<rparr>
                in
                if unique_violation (filter (\<lambda>v. u_id v \<noteq> u_id g_user) (users d)) u then
                  \<lparr>db_after = d, session_after = s, flashes = [],
                   response = Raised IntegrityError\<rparr>
                else
                  \<lparr>db_after = d\<lparr>users :=
                      map (\<lambda>v. if u_id v = u_id g_user then u else v) (users d)\<rparr>,
                   session_after = s,
                   flashes = [(''Profile updated successfully.'', ''success'')],
                   response = Redirect (UserPage (u_id g_user))\<rparr>)
             else
               \<lparr>db_after = d, session_after = s,
                flashes = [(''Invalid current password. Please try again.'', ''danger'')],
                response = Render ''users/edit.html''
                             [(''form'', VUserEditForm f), (''user_id'', VUserId (u_id g_user))]\<rparr>)
          else
            \<lparr>db_after = d, session_after = s, flashes = [],
             response = Render ''users/edit.html''
                          [(''form'', VUserEditForm (form_data form)),
                           (''user_id'', VUserId (u_id g_user))]\<rparr>)"

definition delete_user :: "db \<Rightarrow> session \<Rightarrow> outcome" where
  "delete_user d s =
     (case add_user_to_g d s of
        None \<Rightarrow>
          \<lparr>db_after = d, session_after = s,
           flashes = [(''Access unauthorized.'', ''danger'')],
           response = Redirect Root\<rparr>
      | Some g_user \<Rightarrow>
          \<lparr>db_after = cascade_delete_user d (u_id g_user), session_after = do_logout s,
           flashes = [], response = Redirect SignupPage\<rparr>)"

text \<open>
  \<^verbatim>\<open>messages_add\<close>: the new row gets its timestamp from the clock, here the argument
  \<open>now\<close>, and its owner from \<^verbatim>\<open>g.user.messages.append(msg)\<close>.
\<close>

definition messages_add :: "db \<Rightarrow> session \<Rightarrow> int \<Rightarrow> message_form form \<Rightarrow> outcome" where
  "messages_add d s now form =
     (case add_user_to_g d s of
        None \<Rightarrow>
          \<lparr>db_after = d, session_after = s,
           flashes = [(''Access unauthorized.'', ''danger'')],
           response = Redirect Root\<rparr>
      | Some g_user \<Rightarrow>
          if validate_on_submit form then
            (let msg = \<lparr>m_id = next_id (map m_id (messages d)),
                        m_text = mf_text (form_data form),
                        timestamp = now,
                        user_id = u_id g_user\<rparr>
             in \<lparr>db_after = d\<lparr>messages := messages d @ [msg]\<rparr>, session_after = s,
                 flashes = [], response = Redirect (UserPage (u_id g_user))\<rparr>)
          else
            \<lparr>db_after = d, session_after = s, flashes = [],
             response = Render ''messages/new.html''
                          [(''form'', VMessageForm (form_data form))]\<rparr>)"

text \<open>
  \<^verbatim>\<open>messages_destroy\<close>: \<^verbatim>\<open>Message.query.get\<close> gives \<^verbatim>\<open>None\<close> for an unknown identifier
  and \<^verbatim>\<open>db.session.delete(None)\<close> raises. The handler compares nothing with
  \<^verbatim>\<open>g.user\<close> beyond its presence.
\<close>

definition messages_destroy :: "db \<Rightarrow> session \<Rightarrow> nat \<Rightarrow> outcome" where
  "messages_destroy d s message_id =
     (case add_user_to_g d s of
        None \<Rightarrow>
          \<lparr>db_after = d, session_after = s,
           flashes = [(''Access unauthorized.'', ''danger'')],
           response = Redirect Root\<rparr>
      | Some g_user \<Rightarrow>
          (case get_message d message_id of
             None \<Rightarrow>
               \<lparr>db_after = d, session_after = s, flashes = [],
                response = Raised UnmappedInstanceError\<rparr>
           | Some msg \<Rightarrow>
               \<lparr>db_after = cascade_delete_message d (m_id msg), session_after = s,
                flashes = [], response = Redirect (UserPage (u_id g_user))\<rparr>))"

definition homepage :: "db \<Rightarrow> session \<Rightarrow> outcome" where
  "homepage d s =
     (case add_user_to_g d s of
        Some g_user \<Rightarrow>
          (let followed_users_ids = map u_id (following d g_user);
               msgs = limit 100 (order_by_timestamp_desc
                        (filter (\<lambda>m. user_id m \<in> set followed_users_ids) (messages d)));
               liked_message_ids =
                 map l_message_id (filter (\<lambda>l. l_user_id l = u_id g_user) (likes d))
           in \<lparr>db_after = d, session_after = s, flashes = [],
               response = Render ''home.html''
                            [(''messages'', VMessages msgs),
                             (''liked_message'', VIds liked_message_ids)]\<rparr>)
      | None \<Rightarrow>
          \<lparr>db_after = d, session_after = s, flashes = [],
           response = Render ''home-anon.html'' []\<rparr>)"

definition add_like :: "db \<Rightarrow> session \<Rightarrow> nat \<Rightarrow> outcome" where
  "add_like d s message_id =
     (case add_user_to_g d s of
        None \<Rightarrow>
          \<lparr>db_after = d, session_after = s,
           flashes = [(''Access unauthorized.'', ''danger'')],
           response = Redirect LoginPage\<rparr>
      | Some g_user \<Rightarrow>
          (case get_message d message_id of
             None \<Rightarrow> \<lparr>db_after = d, session_after = s, flashes = [], response = Abort 404\<rparr>
           | Some msg \<Rightarrow>
               (case first_like d (u_id g_user) message_id of
                  Some like \<Rightarrow>
                    \<lparr>db_after = d\<lparr>likes := remove1 like (likes d)\<rparr>, session_after = s,
                     flashes = [(''You've unliked the message.'', ''warning'')],
                     response = Redirect Root\<rparr>
                | None \<Rightarrow>
                    \<lparr>db_after = d\<lparr>likes := likes d @
                        [\<lparr>l_user_id = u_id g_user, l_message_id = message_id\<rparr>]\<rparr>,
                     session_after = s,
                     flashes = [(''You've liked the message.'', ''success'')],
                     response = Redirect Root\<rparr>)))"

definition remove_like :: "db \<Rightarrow> session \<Rightarrow> nat \<Rightarrow> outcome" where
  "remove_like d s message_id =
     (case add_user_to_g d s of
        None \<Rightarrow>
          \<lparr>db_after = d, session_after = s,
           flashes = [(''Access unauthorized.'', ''danger'')],
           response = Redirect LoginPage\<rparr>
      | Some g_user \<Rightarrow>
          (case get_message d message_id of
             None \<Rightarrow> \<lparr>db_after = d, session_after = s, flashes = [], response = Abort 404\<rparr>
           | Some msg \<Rightarrow>
               (case first_like d (u_id g_user) message_id of
                  None \<Rightarrow>
                    \<lparr>db_after = d, session_after = s,
                     flashes = [(''You haven't liked this warble yet.'', ''warning'')],
                     response = Redirect (UserLikesPage (u_id g_user))\<rparr>
                | Some like \<Rightarrow>
                    \<lparr>db_after = d\<lparr>likes := remove1 like (likes d)\<rparr>, session_after = s,
                     flashes = [(''Warble unliked.'', ''success'')],
                     response = Redirect (UserLikesPage (u_id g_user))\<rparr>)))"

section \<open>A small instance\<close>

text \<open>
  Two users, Alice and Bob. Alice wrote two messages at the same clock tick, Bob one
  later. Bob follows Alice and likes her first message.
\<close>

definition example_env :: env where
  "example_env =
     \<lparr>generate_password_hash = (\<lambda>pw. ''hash:'' @ pw),
      check_password_hash = (\<lambda>h pw. h = ''hash:'' @ pw),
      default_image_url = ''/static/images/default-pic.png''\<rparr>"

definition alice :: user where
  "alice = \<lparr>u_id = 1, username = ''alice'', email = ''alice@test.com'',
     password = ''hash:wonderland'', image_url = ''/static/images/default-pic.png'',
     header_image_url = ''/static/images/warbler-hero.jpg'', bio = [], location = []\<rparr>"

definition bob :: user where
  "bob = \<lparr>u_id = 2, username = ''bob'', email = ''bob@test.com'',
     password = ''hash:builder'', image_url = ''/static/images/default-pic.png'',
     header_image_url = ''/static/images/warbler-hero.jpg'', bio = [], location = []\<rparr>"

definition hello :: message where
  "hello = \<lparr>m_id = 1, m_text = ''Hello'', timestamp = 10, user_id = 1\<rparr>"

definition again :: message where
  "again = \<lparr>m_id = 2, m_text = ''Hello again'', timestamp = 10, user_id = 1\<rparr>"

definition reply :: message where
  "reply = \<lparr>m_id = 3, m_text = ''Hi Alice'', timestamp = 20, user_id = 2\<rparr>"

definition example_db :: db where
  "example_db =
     \<lparr>users = [alice, bob],
      messages = [hello, again, reply],
      follows = [\<lparr>follower_id = 2, followed_id = 1\<rparr>],
      likes = [\<lparr>l_user_id = 2, l_message_id = 1\<rparr>]\<rparr>"

definition anonymous :: session where
  "anonymous = Map.empty"

definition as_alice :: session where
  "as_alice = [CURR_USER_KEY \<mapsto> 1]"

definition as_bob :: session where
  "as_bob = [CURR_USER_KEY \<mapsto> 2]"

text \<open>
  The same rows with Alice's two messages stored the other way round, and a variant in
  which every message has a clock tick of its own, in two row orders.
\<close>

definition example_db_reordered :: db where
  "example_db_reordered = example_db\<lparr>messages := [again, hello, reply]\<rparr>"

definition later :: message where
  "later = \<lparr>m_id = 4, m_text = ''Later'', timestamp = 30, user_id = 1\<rparr>"

definition ticking_db :: db where
  "ticking_db = example_db\<lparr>messages := [hello, reply, later]\<rparr>"

definition ticking_db_reordered :: db where
  "ticking_db_reordered = example_db\<lparr>messages := [later, reply, hello]\<rparr>"

section \<open>Basic facts\<close>

lemmas example_defs = example_env_def alice_def bob_def hello_def again_def reply_def
  example_db_def anonymous_def as_alice_def as_bob_def

lemma g_user_alice: "add_user_to_g example_db as_alice = Some alice"
  by (simp add: add_user_to_g_def get_user_def example_defs)

lemma g_user_bob: "add_user_to_g example_db as_bob = Some bob"
  by (simp add: add_user_to_g_def get_user_def example_defs)

lemma g_user_anonymous: "add_user_to_g example_db anonymous = None"
  by (simp add: add_user_to_g_def anonymous_def)

lemma get_user_g_user:
  assumes "add_user_to_g d s = Some u"
  shows "get_user d (u_id u) = Some u"
proof -
  from assms obtain k where k: "s CURR_USER_KEY = Some k" "get_user d k = Some u"
    by (auto simp: add_user_to_g_def split: option.splits)
  from k(2) have "u_id u = k"
    by (auto simp: get_user_def find_Some_iff)
  with k(2) show ?thesis by simp
qed

lemma first_like_Some:
  assumes "first_like d uid mid = Some l"
  shows "l = \<lparr>l_user_id = uid, l_message_id = mid\<rparr>" and "l \<in> set (likes d)"
  using assms by (auto simp: first_like_def find_Some_iff)

lemma first_like_None:
  "first_like d uid mid = None \<longleftrightarrow> \<lparr>l_user_id = uid, l_message_id = mid\<rparr> \<notin> set (likes d)"
proof
  assume n: "first_like d uid mid = None"
  show "\<lparr>l_user_id = uid, l_message_id = mid\<rparr> \<notin> set (likes d)"
  proof
    assume "\<lparr>l_user_id = uid, l_message_id = mid\<rparr> \<in> set (likes d)"
    with n show False
      by (force simp: first_like_def find_None_iff)
  qed
next
  assume notin: "\<lparr>l_user_id = uid, l_message_id = mid\<rparr> \<notin> set (likes d)"
  have "\<And>l. l \<in> set (likes d) \<Longrightarrow> \<not> (l_user_id l = uid \<and> l_message_id l = mid)"
  proof
    fix l assume l: "l \<in> set (likes d)" "l_user_id l = uid \<and> l_message_id l = mid"
    then have "l = \<lparr>l_user_id = uid, l_message_id = mid\<rparr>" by simp
    with l(1) notin show False by simp
  qed
  then show "first_like d uid mid = None"
    by (simp add: first_like_def find_None_iff)
qed

lemma first_like_iff:
  "first_like d uid mid =
     (if \<lparr>l_user_id = uid, l_message_id = mid\<rparr> \<in> set (likes d)
      then Some \<lparr>l_user_id = uid, l_message_id = mid\<rparr> else None)"
proof (cases "first_like d uid mid")
  case None
  then show ?thesis by (simp add: first_like_None)
next
  case (Some l)
  with first_like_Some[OF Some] show ?thesis by simp
qed

section \<open>Deleting a message\<close>

text \<open>
  Claim C1: message-delete fails with Unauthorized unless the requester owns the
  message, and a request for somebody else's message leaves the message table
  unchanged. The handler \<^verbatim>\<open>messages_destroy\<close> only asks whether somebody is logged in.
  Here Bob, logged in, posts a delete for message 1, which Alice owns: the row is
  deleted (with the like on it), nothing is flashed, and Bob is redirected to his page
  as after a delete of his own message. The repository's test
  \<^verbatim>\<open>test_delete_message_as_another_user\<close> is documented as "prohibiting deleting a
  message as another user".
\<close>

theorem messages_destroy_by_non_owner:
  "add_user_to_g example_db as_bob = Some bob \<and>
   get_message example_db 1 = Some hello \<and>
   user_id hello \<noteq> u_id bob \<and>
   messages_destroy example_db as_bob 1 =
     \<lparr>db_after = example_db\<lparr>messages := [again, reply], likes := []\<rparr>,
      session_after = as_bob, flashes = [], response = Redirect (UserPage 2)\<rparr>"
  by (simp add: messages_destroy_def add_user_to_g_def get_user_def get_message_def
      cascade_delete_message_def example_defs)

section \<open>Unfollowing\<close>

text \<open>
  Claim C7: unfollowing a user one does not follow is a no-op and not an error. In
  \<^verbatim>\<open>stop_following\<close> the call \<^verbatim>\<open>g.user.following.remove(followed_user)\<close> raises
  \<^verbatim>\<open>ValueError\<close> when the edge is missing, and nothing catches it. Here Alice, who does
  not follow Bob, posts stop-following for Bob: the follow table is unchanged, but the
  request ends in the exception. The sibling handler \<^verbatim>\<open>remove_like\<close> tests for the
  missing row first and answers with a warning.
\<close>

theorem stop_following_without_edge_raises:
  "add_user_to_g example_db as_alice = Some alice \<and>
   get_user example_db 2 = Some bob \<and>
   \<lparr>follower_id = 1, followed_id = 2\<rparr> \<notin> set (follows example_db) \<and>
   stop_following example_db as_alice 2 =
     \<lparr>db_after = example_db, session_after = as_alice, flashes = [],
      response = Raised ValueError\<rparr>"
  by (simp add: stop_following_def add_user_to_g_def get_user_def following_def example_defs)

section \<open>Signing up with credentials in use\<close>

text \<open>
  Claim C6: signup with a username or an email already in use fails with a distinct
  error that identifies the colliding field, and writes nothing. \<^verbatim>\<open>signup\<close> catches the
  store's \<^verbatim>\<open>IntegrityError\<close> and always flashes "Username already taken". Here the
  username is new and the email is Alice's: nothing is written, and the caller is told
  that the username is taken.
\<close>

theorem signup_duplicate_email_reported_as_username:
  "''carol'' \<notin> username ` set (users example_db) \<and>
   ''alice@test.com'' \<in> email ` set (users example_db) \<and>
   signup example_env example_db anonymous
     \<lparr>form_data = \<lparr>af_username = ''carol'', af_password = ''secret1'',
                    af_email = ''alice@test.com'', af_image_url = []\<rparr>,
      validate_on_submit = True\<rparr> =
     \<lparr>db_after = example_db, session_after = anonymous,
      flashes = [(''Username already taken'', ''danger'')],
      response = Render ''users/signup.html''
        [(''form'', VUserAddForm \<lparr>af_username = ''carol'', af_password = ''secret1'',
                    af_email = ''alice@test.com'', af_image_url = []\<rparr>)]\<rparr>"
  by (simp add: signup_def User_signup_def unique_violation_def example_defs)

section \<open>The home timeline\<close>

lemma order_by_timestamp_desc_sorted:
  "sorted_wrt (\<lambda>a b. timestamp b \<le> timestamp a) (order_by_timestamp_desc ms)"
proof -
  have "sorted (map (\<lambda>m. - timestamp m) (sort_key (\<lambda>m. - timestamp m) ms))"
    by (rule sorted_sort_key)
  then show ?thesis
    by (simp add: order_by_timestamp_desc_def sorted_map)
qed

lemma order_by_timestamp_desc_fixes_sorted:
  assumes "sorted_wrt (\<lambda>a b. timestamp b \<le> timestamp a) ms"
  shows "order_by_timestamp_desc ms = ms"
proof -
  from assms have "sorted (map (\<lambda>m. - timestamp m) ms)"
    by (simp add: sorted_map)
  then show ?thesis
    unfolding order_by_timestamp_desc_def by (rule sort_key_id_if_sorted)
qed

lemma set_order_by_timestamp_desc [simp]:
  "set (order_by_timestamp_desc ms) = set ms"
  by (simp add: order_by_timestamp_desc_def)

lemma timeline_query_props:
  fixes P :: "message \<Rightarrow> bool" and d :: db
  defines "res \<equiv> limit 100 (order_by_timestamp_desc (filter P (messages d)))"
  shows "set res \<subseteq> {m \<in> set (messages d). P m}"
    and "sorted_wrt (\<lambda>a b. timestamp b \<le> timestamp a) res"
    and "length res \<le> 100"
proof -
  show "set res \<subseteq> {m \<in> set (messages d). P m}"
    unfolding res_def limit_def using set_take_subset[of 100 "order_by_timestamp_desc (filter P (messages d))"]
    by auto
  show "sorted_wrt (\<lambda>a b. timestamp b \<le> timestamp a) res"
    unfolding res_def limit_def by (rule sorted_wrt_take) (rule order_by_timestamp_desc_sorted)
  show "length res \<le> 100"
    unfolding res_def limit_def by simp
qed

lemma following_ids:
  "k \<in> set (map u_id (following d u)) \<Longrightarrow> \<lparr>follower_id = u_id u, followed_id = k\<rparr> \<in> set (follows d)"
  by (auto simp: following_def)

text \<open>
  Claim C2: for every viewer the home timeline contains only messages whose author the
  viewer follows, ordered by creation timestamp descending, with at most 100 messages;
  for an anonymous viewer it is empty. For a logged-in viewer \<^verbatim>\<open>homepage\<close> renders
  \<^verbatim>\<open>home.html\<close> with a list of stored messages, each written by a user to whom a
  follow edge leads from the viewer, no later message after an earlier one, and no more
  than 100 of them. Without a logged-in user it renders \<^verbatim>\<open>home-anon.html\<close> and passes
  no message at all.
\<close>

theorem homepage_timeline:
  "(add_user_to_g d s = None \<longrightarrow> response (homepage d s) = Render ''home-anon.html'' []) \<and>
   (\<forall>g_user. add_user_to_g d s = Some g_user \<longrightarrow>
      (\<exists>msgs liked.
         response (homepage d s) =
           Render ''home.html'' [(''messages'', VMessages msgs), (''liked_message'', VIds liked)] \<and>
         (\<forall>m \<in> set msgs. m \<in> set (messages d) \<and>
            \<lparr>follower_id = u_id g_user, followed_id = user_id m\<rparr> \<in> set (follows d)) \<and>
         sorted_wrt (\<lambda>a b. timestamp b \<le> timestamp a) msgs \<and>
         length msgs \<le> 100))"
proof (intro conjI allI impI)
  assume "add_user_to_g d s = None"
  then show "response (homepage d s) = Render ''home-anon.html'' []"
    by (simp add: homepage_def)
next
  fix g_user
  assume g: "add_user_to_g d s = Some g_user"
  let ?P = "\<lambda>m. user_id m \<in> set (map u_id (following d g_user))"
  let ?msgs = "limit 100 (order_by_timestamp_desc (filter ?P (messages d)))"
  let ?liked = "map l_message_id (filter (\<lambda>l. l_user_id l = u_id g_user) (likes d))"
  have resp: "response (homepage d s) =
      Render ''home.html'' [(''messages'', VMessages ?msgs), (''liked_message'', VIds ?liked)]"
    using g by (simp add: homepage_def Let_def)
  have sub: "set ?msgs \<subseteq> {m \<in> set (messages d). ?P m}"
    by (rule timeline_query_props(1))
  have members: "\<forall>m \<in> set ?msgs. m \<in> set (messages d) \<and>
      \<lparr>follower_id = u_id g_user, followed_id = user_id m\<rparr> \<in> set (follows d)"
  proof
    fix m assume "m \<in> set ?msgs"
    with sub have "m \<in> set (messages d)" and "?P m" by auto
    then show "m \<in> set (messages d) \<and>
      \<lparr>follower_id = u_id g_user, followed_id = user_id m\<rparr> \<in> set (follows d)"
      using following_ids[of "user_id m" d g_user] by simp
  qed
  have srt: "sorted_wrt (\<lambda>a b. timestamp b \<le> timestamp a) ?msgs"
    by (rule timeline_query_props(2))
  have len: "length ?msgs \<le> 100"
    by (rule timeline_query_props(3))
  from resp members srt len
  show "\<exists>msgs liked.
         response (homepage d s) =
           Render ''home.html'' [(''messages'', VMessages msgs), (''liked_message'', VIds liked)] \<and>
         (\<forall>m \<in> set msgs. m \<in> set (messages d) \<and>
            \<lparr>follower_id = u_id g_user, followed_id = user_id m\<rparr> \<in> set (follows d)) \<and>
         sorted_wrt (\<lambda>a b. timestamp b \<le> timestamp a) msgs \<and>
         length msgs \<le> 100"
    by blast
qed

text \<open>
  The instance: Bob follows Alice and sees her two messages; the anonymous visitor gets
  the page without messages.
\<close>

theorem homepage_timeline_witness:
  "add_user_to_g example_db as_bob = Some bob \<and>
   response (homepage example_db as_bob) =
     Render ''home.html'' [(''messages'', VMessages [hello, again]), (''liked_message'', VIds [1])] \<and>
   \<lparr>follower_id = u_id bob, followed_id = user_id hello\<rparr> \<in> set (follows example_db) \<and>
   \<lparr>follower_id = u_id bob, followed_id = user_id again\<rparr> \<in> set (follows example_db) \<and>
   add_user_to_g example_db anonymous = None \<and>
   response (homepage example_db anonymous) = Render ''home-anon.html'' []"
proof -
  have r: "response (homepage example_db as_bob) =
     Render ''home.html'' [(''messages'', VMessages [hello, again]), (''liked_message'', VIds [1])]"
    by (simp add: homepage_def add_user_to_g_def get_user_def following_def limit_def
        order_by_timestamp_desc_def example_defs)
  from homepage_timeline[of example_db as_bob] homepage_timeline[of example_db anonymous]
    g_user_bob g_user_anonymous r
  show ?thesis by auto
qed

section \<open>Anonymous callers\<close>

text \<open>
  Claim C3: for an anonymous caller every mutating operation (post a message, delete a
  message, follow, unfollow, like, unlike, profile edit, account delete) fails with
  Unauthorized and leaves the persistent state unchanged. Every one of these handlers
  starts with the test \<^verbatim>\<open>if not g.user\<close>: it flashes "Access unauthorized." in the
  category \<^verbatim>\<open>danger\<close> and redirects (to \<^verbatim>\<open>/\<close> or to \<^verbatim>\<open>/login\<close>), and the database and
  the session stay as they were. In particular an anonymous post creates no message.
\<close>

theorem anonymous_mutations_unauthorized:
  fixes d :: db and s :: session
  defines "denied \<equiv> \<lambda>target.
     \<lparr>db_after = d, session_after = s,
      flashes = [(''Access unauthorized.'', ''danger'')],
      response = Redirect target\<rparr>"
  assumes anon: "add_user_to_g d s = None"
  shows "messages_add d s now message_form = denied Root \<and>
         messages_destroy d s message_id = denied Root \<and>
         add_follow d s follow_id = denied Root \<and>
         stop_following d s follow_id = denied Root \<and>
         add_like d s message_id = denied LoginPage \<and>
         remove_like d s message_id = denied LoginPage \<and>
         profile e d s edit_form = denied LoginPage \<and>
         delete_user d s = denied Root"
  using anon
  by (simp add: denied_def messages_add_def messages_destroy_def add_follow_def
      stop_following_def add_like_def remove_like_def profile_def delete_user_def)

theorem anonymous_mutations_unauthorized_witness:
  "add_user_to_g example_db anonymous = None \<and>
   messages_add example_db anonymous 30
       \<lparr>form_data = \<lparr>mf_text = ''Test message''\<rparr>, validate_on_submit = True\<rparr> =
     \<lparr>db_after = example_db, session_after = anonymous,
      flashes = [(''Access unauthorized.'', ''danger'')], response = Redirect Root\<rparr> \<and>
   messages_destroy example_db anonymous 1 =
     \<lparr>db_after = example_db, session_after = anonymous,
      flashes = [(''Access unauthorized.'', ''danger'')], response = Redirect Root\<rparr> \<and>
   add_like example_db anonymous 1 =
     \<lparr>db_after = example_db, session_after = anonymous,
      flashes = [(''Access unauthorized.'', ''danger'')], response = Redirect LoginPage\<rparr> \<and>
   delete_user example_db anonymous =
     \<lparr>db_after = example_db, session_after = anonymous,
      flashes = [(''Access unauthorized.'', ''danger'')], response = Redirect Root\<rparr>"
  using g_user_anonymous
    anonymous_mutations_unauthorized[OF g_user_anonymous, of 30
      "\<lparr>form_data = \<lparr>mf_text = ''Test message''\<rparr>, validate_on_submit = True\<rparr>" 1]
  by simp

section \<open>Toggling a like\<close>

text \<open>
  Claim C4: \<^verbatim>\<open>add_like\<close> deletes the like row of the user and the message and reports
  "unliked" when there is one, and otherwise inserts one and reports "liked"; two calls
  in a row bring the like relation back. The user is logged in and the message exists
  (otherwise the handler redirects or answers 404). The likes table has no duplicate
  rows: the store's uniqueness constraint on the pair. After two calls the table holds
  the same set of rows as before, still without duplicates, and nothing else has
  changed.
\<close>

theorem add_like_toggles:
  assumes g: "add_user_to_g d s = Some g_user"
      and m: "get_message d message_id = Some msg"
      and uniq: "distinct (likes d)"
  defines "row \<equiv> \<lparr>l_user_id = u_id g_user, l_message_id = message_id\<rparr>"
  shows "(row \<in> set (likes d) \<longrightarrow>
            add_like d s message_id =
              \<lparr>db_after = d\<lparr>likes := remove1 row (likes d)\<rparr>, session_after = s,
               flashes = [(''You've unliked the message.'', ''warning'')],
               response = Redirect Root\<rparr>) \<and>
         (row \<notin> set (likes d) \<longrightarrow>
            add_like d s message_id =
              \<lparr>db_after = d\<lparr>likes := likes d @ [row]\<rparr>, session_after = s,
               flashes = [(''You've liked the message.'', ''success'')],
               response = Redirect Root\<rparr>) \<and>
         (let once = add_like d s message_id;
              twice = add_like (db_after once) (session_after once) message_id
          in set (likes (db_after twice)) = set (likes d) \<and>
             distinct (likes (db_after twice)) \<and>
             users (db_after twice) = users d \<and>
             messages (db_after twice) = messages d \<and>
             follows (db_after twice) = follows d \<and>
             session_after twice = s)"
proof (intro conjI impI)
  assume "row \<in> set (likes d)"
  then show "add_like d s message_id =
      \<lparr>db_after = d\<lparr>likes := remove1 row (likes d)\<rparr>, session_after = s,
       flashes = [(''You've unliked the message.'', ''warning'')],
       response = Redirect Root\<rparr>"
    using g m by (simp add: add_like_def first_like_iff row_def)
next
  assume "row \<notin> set (likes d)"
  then show "add_like d s message_id =
      \<lparr>db_after = d\<lparr>likes := likes d @ [row]\<rparr>, session_after = s,
       flashes = [(''You've liked the message.'', ''success'')],
       response = Redirect Root\<rparr>"
    using g m by (simp add: add_like_def first_like_iff row_def)
next
  have g': "\<And>ls. add_user_to_g (d\<lparr>likes := ls\<rparr>) s = Some g_user"
    using g by (simp add: add_user_to_g_def get_user_def split: option.splits)
  have m': "\<And>ls. get_message (d\<lparr>likes := ls\<rparr>) message_id = Some msg"
    using m by (simp add: get_message_def)
  show "let once = add_like d s message_id;
            twice = add_like (db_after once) (session_after once) message_id
        in set (likes (db_after twice)) = set (likes d) \<and>
           distinct (likes (db_after twice)) \<and>
           users (db_after twice) = users d \<and>
           messages (db_after twice) = messages d \<and>
           follows (db_after twice) = follows d \<and>
           session_after twice = s"
  proof (cases "row \<in> set (likes d)")
    case True
    then have once: "add_like d s message_id =
        \<lparr>db_after = d\<lparr>likes := remove1 row (likes d)\<rparr>, session_after = s,
         flashes = [(''You've unliked the message.'', ''warning'')],
         response = Redirect Root\<rparr>"
      using g m by (simp add: add_like_def first_like_iff row_def)
    from True uniq have gone: "row \<notin> set (remove1 row (likes d))" by simp
    have twice: "add_like (d\<lparr>likes := remove1 row (likes d)\<rparr>) s message_id =
        \<lparr>db_after = d\<lparr>likes := remove1 row (likes d) @ [row]\<rparr>, session_after = s,
         flashes = [(''You've liked the message.'', ''success'')],
         response = Redirect Root\<rparr>"
      using g' m' gone by (simp add: add_like_def first_like_iff row_def)
    from True uniq have "set (remove1 row (likes d) @ [row]) = set (likes d)"
      by auto
    moreover from uniq gone have "distinct (remove1 row (likes d) @ [row])"
      by simp
    ultimately show ?thesis
      by (simp add: once twice Let_def)
  next
    case False
    then have once: "add_like d s message_id =
        \<lparr>db_after = d\<lparr>likes := likes d @ [row]\<rparr>, session_after = s,
         flashes = [(''You've liked the message.'', ''success'')],
         response = Redirect Root\<rparr>"
      using g m by (simp add: add_like_def first_like_iff row_def)
    have twice: "add_like (d\<lparr>likes := likes d @ [row]\<rparr>) s message_id =
        \<lparr>db_after = d\<lparr>likes := remove1 row (likes d @ [row])\<rparr>, session_after = s,
         flashes = [(''You've unliked the message.'', ''warning'')],
         response = Redirect Root\<rparr>"
      using g' m' by (simp add: add_like_def first_like_iff row_def)
    from False have "remove1 row (likes d @ [row]) = likes d"
      by (simp add: remove1_append)
    with uniq show ?thesis
      by (simp add: once twice Let_def)
  qed
qed

theorem add_like_toggles_witness:
  "add_user_to_g example_db as_bob = Some bob \<and>
   get_message example_db 1 = Some hello \<and>
   get_message example_db 3 = Some reply \<and>
   distinct (likes example_db) \<and>
   add_like example_db as_bob 1 =
     \<lparr>db_after = example_db\<lparr>likes := []\<rparr>, session_after = as_bob,
      flashes = [(''You've unliked the message.'', ''warning'')],
      response = Redirect Root\<rparr> \<and>
   add_like example_db as_bob 3 =
     \<lparr>db_after = example_db\<lparr>likes :=
        [\<lparr>l_user_id = 2, l_message_id = 1\<rparr>, \<lparr>l_user_id = 2, l_message_id = 3\<rparr>]\<rparr>,
      session_after = as_bob,
      flashes = [(''You've liked the message.'', ''success'')],
      response = Redirect Root\<rparr> \<and>
   set (likes (db_after (add_like (db_after (add_like example_db as_bob 1)) as_bob 1))) =
     set (likes example_db)"
proof -
  have m1: "get_message example_db 1 = Some hello"
    by (simp add: get_message_def example_defs)
  have m3: "get_message example_db 3 = Some reply"
    by (simp add: get_message_def example_defs)
  have dl: "distinct (likes example_db)"
    by (simp add: example_defs)
  have in1: "\<lparr>l_user_id = u_id bob, l_message_id = 1\<rparr> \<in> set (likes example_db)"
    by (simp add: example_defs)
  have out3: "\<lparr>l_user_id = u_id bob, l_message_id = 3\<rparr> \<notin> set (likes example_db)"
    by (simp add: example_defs)
  note t1 = add_like_toggles[OF g_user_bob m1 dl]
  note t3 = add_like_toggles[OF g_user_bob m3 dl]
  from t1 in1 have a: "add_like example_db as_bob 1 =
     \<lparr>db_after = example_db\<lparr>likes := []\<rparr>, session_after = as_bob,
      flashes = [(''You've unliked the message.'', ''warning'')],
      response = Redirect Root\<rparr>"
    by (simp add: example_defs)
  from t3 out3 have b: "add_like example_db as_bob 3 =
     \<lparr>db_after = example_db\<lparr>likes :=
        [\<lparr>l_user_id = 2, l_message_id = 1\<rparr>, \<lparr>l_user_id = 2, l_message_id = 3\<rparr>]\<rparr>,
      session_after = as_bob,
      flashes = [(''You've liked the message.'', ''success'')],
      response = Redirect Root\<rparr>"
    by (simp add: example_defs)
  from t1 have "set (likes (db_after (add_like (db_after (add_like example_db as_bob 1))
      (session_after (add_like example_db as_bob 1)) 1))) = set (likes example_db)"
    by (simp add: Let_def)
  moreover have "session_after (add_like example_db as_bob 1) = as_bob"
    by (simp only: a outcome.simps)
  ultimately have c: "set (likes (db_after (add_like (db_after (add_like example_db as_bob 1)) as_bob 1))) =
     set (likes example_db)"
    by (simp only:)
  from g_user_bob m1 m3 dl a b c show ?thesis by blast
qed

section \<open>Failed logins\<close>

text \<open>
  Claim C5: authenticating with an unknown username and with a known username but a
  wrong password gives the same observable outcome. In both cases
  \<^verbatim>\<open>User.authenticate\<close> returns no user, and \<^verbatim>\<open>login\<close> answers both submitted forms in
  the same way: nothing is written, the session is unchanged, the one message
  "Invalid credentials." is flashed and the login page is rendered again with the
  form that the caller sent.
\<close>

theorem login_failures_indistinguishable:
  assumes unknown: "uname1 \<notin> username ` set (users d)"
      and known: "uname2 \<in> username ` set (users d)"
      and wrong: "\<forall>u \<in> set (users d). username u = uname2 \<longrightarrow>
                    \<not> check_password_hash e (password u) pw2"
  shows "User_authenticate e d uname1 pw1 = None \<and>
         User_authenticate e d uname2 pw2 = None \<and>
         login e d s \<lparr>form_data = \<lparr>lf_username = uname1, lf_password = pw1\<rparr>,
                       validate_on_submit = True\<rparr> =
           \<lparr>db_after = d, session_after = s,
            flashes = [(''Invalid credentials.'', ''danger'')],
            response = Render ''users/login.html''
              [(''form'', VLoginForm \<lparr>lf_username = uname1, lf_password = pw1\<rparr>)]\<rparr> \<and>
         login e d s \<lparr>form_data = \<lparr>lf_username = uname2, lf_password = pw2\<rparr>,
                       validate_on_submit = True\<rparr> =
           \<lparr>db_after = d, session_after = s,
            flashes = [(''Invalid credentials.'', ''danger'')],
            response = Render ''users/login.html''
              [(''form'', VLoginForm \<lparr>lf_username = uname2, lf_password = pw2\<rparr>)]\<rparr>"
proof -
  from unknown have "find (\<lambda>u. username u = uname1) (users d) = None"
    by (auto simp: find_None_iff)
  then have a1: "User_authenticate e d uname1 pw1 = None"
    by (simp add: User_authenticate_def)
  have a2: "User_authenticate e d uname2 pw2 = None"
  proof (cases "find (\<lambda>u. username u = uname2) (users d)")
    case None
    then show ?thesis by (simp add: User_authenticate_def)
  next
    case (Some u)
    then have "u \<in> set (users d)" and "username u = uname2"
      by (auto simp: find_Some_iff)
    with wrong have "\<not> check_password_hash e (password u) pw2" by blast
    with Some show ?thesis by (simp add: User_authenticate_def)
  qed
  from a1 a2 show ?thesis
    by (simp add: login_def)
qed

theorem login_failures_indistinguishable_witness:
  "''mallory'' \<notin> username ` set (users example_db) \<and>
   ''alice'' \<in> username ` set (users example_db) \<and>
   \<not> check_password_hash example_env (password alice) ''guess'' \<and>
   User_authenticate example_env example_db ''mallory'' ''guess'' = None \<and>
   User_authenticate example_env example_db ''alice'' ''guess'' = None \<and>
   flashes (login example_env example_db anonymous
      \<lparr>form_data = \<lparr>lf_username = ''mallory'', lf_password = ''guess''\<rparr>,
       validate_on_submit = True\<rparr>) = [(''Invalid credentials.'', ''danger'')] \<and>
   flashes (login example_env example_db anonymous
      \<lparr>form_data = \<lparr>lf_username = ''alice'', lf_password = ''guess''\<rparr>,
       validate_on_submit = True\<rparr>) = [(''Invalid credentials.'', ''danger'')]"
proof -
  have u: "''mallory'' \<notin> username ` set (users example_db)"
    by (simp add: example_defs)
  have k: "''alice'' \<in> username ` set (users example_db)"
    by (simp add: example_defs)
  have w: "\<forall>u \<in> set (users example_db). username u = ''alice'' \<longrightarrow>
             \<not> check_password_hash example_env (password u) ''guess''"
    by (simp add: example_defs)
  have w': "\<not> check_password_hash example_env (password alice) ''guess''"
    by (simp add: example_defs)
  from login_failures_indistinguishable[OF u k w, of "''guess''" anonymous] u k w'
  show ?thesis by simp
qed

section \<open>Following oneself\<close>

text \<open>
  Claim C8, as stated: the follow operation rejects self-follow, so that no edge from a
  user to itself ever exists. \<^verbatim>\<open>add_follow\<close> appends whatever user the identifier
  names to \<^verbatim>\<open>g.user.following\<close>; it never compares the target with \<^verbatim>\<open>g.user\<close>. Here
  Alice, who has no edge to herself, posts a follow for her own identifier: the edge
  (1, 1) is committed and she is redirected to her following page.
\<close>

theorem add_follow_self_counterexample:
  "add_user_to_g example_db as_alice = Some alice \<and>
   \<lparr>follower_id = 1, followed_id = 1\<rparr> \<notin> set (follows example_db) \<and>
   add_follow example_db as_alice (u_id alice) =
     \<lparr>db_after = example_db\<lparr>follows :=
        [\<lparr>follower_id = 2, followed_id = 1\<rparr>, \<lparr>follower_id = 1, followed_id = 1\<rparr>]\<rparr>,
      session_after = as_alice, flashes = [],
      response = Redirect (UserFollowingPage 1)\<rparr>"
  by (simp add: add_follow_def add_user_to_g_def get_user_def example_defs)

text \<open>
  Claim C8, amended: the follow operation does not reject self-follow. For a logged-in
  user and an existing target that the user does not follow yet, \<^verbatim>\<open>add_follow\<close> adds
  exactly the edge from the user to the target and changes nothing else, also when the
  target is the user: then the edge from the user to itself is in the follow table.
\<close>

theorem add_follow_adds_requested_edge:
  assumes g: "add_user_to_g d s = Some g_user"
      and t: "get_user d follow_id = Some followed_user"
      and new: "\<lparr>follower_id = u_id g_user, followed_id = follow_id\<rparr> \<notin> set (follows d)"
  shows "add_follow d s follow_id =
           \<lparr>db_after = d\<lparr>follows := follows d @
               [\<lparr>follower_id = u_id g_user, followed_id = follow_id\<rparr>]\<rparr>,
            session_after = s, flashes = [],
            response = Redirect (UserFollowingPage (u_id g_user))\<rparr> \<and>
         (follow_id = u_id g_user \<longrightarrow>
            \<lparr>follower_id = u_id g_user, followed_id = u_id g_user\<rparr>
              \<in> set (follows (db_after (add_follow d s follow_id))))"
proof -
  from t have id: "u_id followed_user = follow_id"
    by (auto simp: get_user_def find_Some_iff)
  from g t new id have eq: "add_follow d s follow_id =
           \<lparr>db_after = d\<lparr>follows := follows d @
               [\<lparr>follower_id = u_id g_user, followed_id = follow_id\<rparr>]\<rparr>,
            session_after = s, flashes = [],
            response = Redirect (UserFollowingPage (u_id g_user))\<rparr>"
    by (simp add: add_follow_def)
  show ?thesis unfolding eq by simp
qed

theorem add_follow_adds_requested_edge_witness:
  "add_user_to_g example_db as_alice = Some alice \<and>
   get_user example_db (u_id alice) = Some alice \<and>
   \<lparr>follower_id = u_id alice, followed_id = u_id alice\<rparr> \<notin> set (follows example_db) \<and>
   \<lparr>follower_id = u_id alice, followed_id = u_id alice\<rparr>
      \<in> set (follows (db_after (add_follow example_db as_alice (u_id alice))))"
proof -
  have t: "get_user example_db (u_id alice) = Some alice"
    by (rule get_user_g_user[OF g_user_alice])
  have new: "\<lparr>follower_id = u_id alice, followed_id = u_id alice\<rparr> \<notin> set (follows example_db)"
    by (simp add: example_defs)
  from add_follow_adds_requested_edge[OF g_user_alice t new] g_user_alice t new
  show ?thesis by simp
qed

section \<open>Removing a like\<close>

text \<open>
  Claim C10: for a logged-in user and an existing message, \<^verbatim>\<open>remove_like\<close> leaves the
  likes unchanged and only flashes a warning when the user has not liked the message;
  when the user has, it deletes that one like row and no other: the table afterwards
  is the table before less one occurrence of the row.
\<close>

theorem remove_like_only_own_like:
  assumes g: "add_user_to_g d s = Some g_user"
      and m: "get_message d message_id = Some msg"
  defines "row \<equiv> \<lparr>l_user_id = u_id g_user, l_message_id = message_id\<rparr>"
  shows "(row \<notin> set (likes d) \<longrightarrow>
            remove_like d s message_id =
              \<lparr>db_after = d, session_after = s,
               flashes = [(''You haven't liked this warble yet.'', ''warning'')],
               response = Redirect (UserLikesPage (u_id g_user))\<rparr>) \<and>
         (row \<in> set (likes d) \<longrightarrow>
            remove_like d s message_id =
              \<lparr>db_after = d\<lparr>likes := remove1 row (likes d)\<rparr>, session_after = s,
               flashes = [(''Warble unliked.'', ''success'')],
               response = Redirect (UserLikesPage (u_id g_user))\<rparr> \<and>
            mset (likes (db_after (remove_like d s message_id))) = mset (likes d) - {#row#})"
  using g m by (simp add: remove_like_def first_like_iff row_def)

theorem remove_like_only_own_like_witness:
  "add_user_to_g example_db as_bob = Some bob \<and>
   get_message example_db 1 = Some hello \<and>
   get_message example_db 3 = Some reply \<and>
   \<lparr>l_user_id = u_id bob, l_message_id = 3\<rparr> \<notin> set (likes example_db) \<and>
   \<lparr>l_user_id = u_id bob, l_message_id = 1\<rparr> \<in> set (likes example_db) \<and>
   remove_like example_db as_bob 3 =
     \<lparr>db_after = example_db, session_after = as_bob,
      flashes = [(''You haven't liked this warble yet.'', ''warning'')],
      response = Redirect (UserLikesPage 2)\<rparr> \<and>
   remove_like example_db as_bob 1 =
     \<lparr>db_after = example_db\<lparr>likes := []\<rparr>, session_after = as_bob,
      flashes = [(''Warble unliked.'', ''success'')],
      response = Redirect (UserLikesPage 2)\<rparr>"
proof -
  have m1: "get_message example_db 1 = Some hello"
    by (simp add: get_message_def example_defs)
  have m3: "get_message example_db 3 = Some reply"
    by (simp add: get_message_def example_defs)
  have in1: "\<lparr>l_user_id = u_id bob, l_message_id = 1\<rparr> \<in> set (likes example_db)"
    by (simp add: example_defs)
  have out3: "\<lparr>l_user_id = u_id bob, l_message_id = 3\<rparr> \<notin> set (likes example_db)"
    by (simp add: example_defs)
  from remove_like_only_own_like[OF g_user_bob m3] out3
  have a: "remove_like example_db as_bob 3 =
     \<lparr>db_after = example_db, session_after = as_bob,
      flashes = [(''You haven't liked this warble yet.'', ''warning'')],
      response = Redirect (UserLikesPage 2)\<rparr>"
    by (simp add: example_defs)
  from remove_like_only_own_like[OF g_user_bob m1] in1
  have b: "remove_like example_db as_bob 1 =
     \<lparr>db_after = example_db\<lparr>likes := []\<rparr>, session_after = as_bob,
      flashes = [(''Warble unliked.'', ''success'')],
      response = Redirect (UserLikesPage 2)\<rparr>"
    by (simp add: example_defs)
  from g_user_bob m1 m3 in1 out3 a b show ?thesis by blast
qed

section \<open>Order among equal timestamps\<close>

lemma filter_same_key_singleton:
  assumes "distinct (map f xs)" and "k \<in> set xs"
  shows "filter (\<lambda>x. f k = f x) xs = [k]"
  using assms
proof (induction xs)
  case Nil
  then show ?case by simp
next
  case (Cons a xs)
  from Cons.prems(1) have fresh: "f a \<notin> f ` set xs" and d: "distinct (map f xs)"
    by simp_all
  show ?case
  proof (cases "k = a")
    case True
    from fresh have "filter (\<lambda>x. f a = f x) xs = []"
      by (auto simp: filter_empty_conv)
    with True show ?thesis by simp
  next
    case False
    with Cons.prems(2) have k: "k \<in> set xs" by simp
    with fresh have "f k \<noteq> f a" by (metis imageI)
    with Cons.IH[OF d k] show ?thesis by simp
  qed
qed

lemma sort_key_determined_by_rows:
  fixes f :: "'a \<Rightarrow> 'b::linorder"
  assumes same: "mset ys = mset xs" and keys: "distinct (map f xs)"
  shows "sort_key f ys = sort_key f xs"
proof -
  from same have "mset (map f ys) = mset (map f xs)" by simp
  with keys have keys': "distinct (map f ys)"
    by (metis mset_eq_imp_distinct_iff)
  from same have sets: "set ys = set xs"
    by (rule mset_eq_setD)
  show ?thesis
  proof (rule properties_for_sort_key)
    show "mset (sort_key f xs) = mset ys"
      using same by simp
    show "sorted (map f (sort_key f xs))"
      by (rule sorted_sort_key)
    fix k assume "k \<in> set (sort_key f xs)"
    then have kx: "k \<in> set xs" by simp
    with sets have ky: "k \<in> set ys" by simp
    have "filter (\<lambda>x. f k = f x) (sort_key f xs) = sort_key f (filter (\<lambda>x. f k = f x) xs)"
      by (rule filter_sort)
    also have "\<dots> = [k]"
      by (simp add: filter_same_key_singleton[OF keys kx])
    also have "\<dots> = filter (\<lambda>x. f k = f x) ys"
      by (simp add: filter_same_key_singleton[OF keys' ky])
    finally show "filter (\<lambda>x. f k = f x) (sort_key f xs) = filter (\<lambda>x. f k = f x) ys" .
  qed
qed

lemma timeline_query_determined_by_rows:
  assumes same: "mset ms2 = mset ms1" and ticks: "distinct (map timestamp ms1)"
  shows "limit n (order_by_timestamp_desc (filter P ms2)) =
         limit n (order_by_timestamp_desc (filter P ms1))"
proof -
  from same have rows: "mset (filter P ms2) = mset (filter P ms1)" by simp
  from ticks have keys: "distinct (map (\<lambda>m. - timestamp m) (filter P ms1))"
    by (simp add: distinct_map inj_on_def distinct_map_filter)
  have "sort_key (\<lambda>m. - timestamp m) (filter P ms2) =
        sort_key (\<lambda>m. - timestamp m) (filter P ms1)"
    by (rule sort_key_determined_by_rows[OF rows keys])
  then show ?thesis
    by (simp only: order_by_timestamp_desc_def)
qed

text \<open>
  Claim C9, as stated: the timelines are a function of the stored message set, with
  equal-timestamp messages ordered by message identifier descending. Both queries say
  \<^verbatim>\<open>order_by(Message.timestamp.desc())\<close> and nothing more. Alice's messages 1 and 2
  carry the same timestamp. With the rows stored as 1, 2 the home timeline of Bob and
  the user timeline of Alice list message 1 before message 2, the lower identifier
  first; with the same rows stored as 2, 1 they list message 2 first. The stored set,
  the users, the follow edges and the likes are the same in both states.
\<close>

theorem timeline_tie_order_counterexample:
  "messages example_db = [hello, again, reply] \<and>
   messages example_db_reordered = [again, hello, reply] \<and>
   users example_db_reordered = users example_db \<and>
   follows example_db_reordered = follows example_db \<and>
   likes example_db_reordered = likes example_db \<and>
   timestamp hello = timestamp again \<and> m_id hello < m_id again \<and>
   response (homepage example_db as_bob) =
     Render ''home.html''
       [(''messages'', VMessages [hello, again]), (''liked_message'', VIds [1])] \<and>
   response (homepage example_db_reordered as_bob) =
     Render ''home.html''
       [(''messages'', VMessages [again, hello]), (''liked_message'', VIds [1])] \<and>
   response (users_show example_db as_bob 1) =
     Render ''users/show.html'' [(''user'', VUser alice), (''messages'', VMessages [hello, again])] \<and>
   response (users_show example_db_reordered as_bob 1) =
     Render ''users/show.html'' [(''user'', VUser alice), (''messages'', VMessages [again, hello])]"
  by (simp add: homepage_def users_show_def add_user_to_g_def get_user_def following_def
      limit_def order_by_timestamp_desc_def example_db_reordered_def example_defs)

text \<open>
  Claim C9, amended: timeline queries are deterministic when the stored messages have
  pairwise distinct creation timestamps. For two states with the same users, follow
  edges and likes and the same message rows, in whatever row order, the home timeline
  and the user timeline give the same response, hence the same ordered sequence of
  messages. Nothing is claimed about the order among messages with equal timestamps.
\<close>

theorem timelines_determined_for_distinct_timestamps:
  assumes "users d2 = users d1" and "follows d2 = follows d1" and "likes d2 = likes d1"
      and rows: "mset (messages d2) = mset (messages d1)"
      and ticks: "distinct (map timestamp (messages d1))"
  shows "response (homepage d2 s) = response (homepage d1 s) \<and>
         response (users_show d2 s uid) = response (users_show d1 s uid)"
proof -
  have gu: "\<And>k. get_user d2 k = get_user d1 k"
    using assms(1) by (simp add: get_user_def)
  have g: "add_user_to_g d2 s = add_user_to_g d1 s"
    by (cases "s CURR_USER_KEY") (simp_all add: add_user_to_g_def gu)
  have f: "\<And>u. following d2 u = following d1 u"
    using assms(1,2) by (simp add: following_def)
  have u: "get_user d2 uid = get_user d1 uid"
    by (rule gu)
  note q = timeline_query_determined_by_rows[OF rows ticks]
  have "response (homepage d2 s) = response (homepage d1 s)"
    by (simp add: homepage_def g f q assms(3) Let_def split: option.splits)
  moreover have "response (users_show d2 s uid) = response (users_show d1 s uid)"
    by (simp add: users_show_def u q Let_def split: option.splits)
  ultimately show ?thesis by simp
qed

theorem timelines_determined_for_distinct_timestamps_witness:
  "mset (messages ticking_db_reordered) = mset (messages ticking_db) \<and>
   messages ticking_db_reordered \<noteq> messages ticking_db \<and>
   distinct (map timestamp (messages ticking_db)) \<and>
   response (homepage ticking_db_reordered as_bob) = response (homepage ticking_db as_bob) \<and>
   response (users_show ticking_db_reordered as_bob 1) = response (users_show ticking_db as_bob 1) \<and>
   response (users_show ticking_db as_bob 1) =
     Render ''users/show.html'' [(''user'', VUser alice), (''messages'', VMessages [later, hello])]"
proof -
  have a: "users ticking_db_reordered = users ticking_db"
    and b: "follows ticking_db_reordered = follows ticking_db"
    and c: "likes ticking_db_reordered = likes ticking_db"
    by (simp_all add: ticking_db_def ticking_db_reordered_def)
  have rows: "mset (messages ticking_db_reordered) = mset (messages ticking_db)"
    by (simp add: ticking_db_def ticking_db_reordered_def)
  have neq: "messages ticking_db_reordered \<noteq> messages ticking_db"
    by (simp add: ticking_db_def ticking_db_reordered_def later_def hello_def)
  have ticks: "distinct (map timestamp (messages ticking_db))"
    by (simp add: ticking_db_def later_def hello_def reply_def)
  have r: "response (users_show ticking_db as_bob 1) =
     Render ''users/show.html'' [(''user'', VUser alice), (''messages'', VMessages [later, hello])]"
    by (simp add: users_show_def get_user_def limit_def order_by_timestamp_desc_def
        ticking_db_def later_def example_defs)
  from timelines_determined_for_distinct_timestamps[OF a b c rows ticks, of as_bob 1]
    rows neq ticks r
  show ?thesis by simp
qed

end
